theory Spec2Isabelle
  imports Main
begin

section \<open>Python values, errors and dictionaries\<close>

text \<open>
  The service of \<^verbatim>\<open>read_data_service/main.py\<close> handles JSON documents (the answer of
  the Kong admin API), claim dictionaries and time stamps. A Python value is one of the
  JSON shapes or a \<^verbatim>\<open>datetime\<close>. A \<^verbatim>\<open>datetime\<close> is naive UTC, with the resolution of
  the Python type: it is represented by its number of microseconds since
  1970-01-01T00:00:00. A dictionary is an association list in insertion order; its keys
  are strings.
\<close>

type_synonym datetime = int

datatype py_value =
    PyNone
  | PyBool bool
  | PyInt int
  | PyStr string
  | PyDatetime datetime
  | PyList "py_value list"
  | PyDict "(string \<times> py_value) list"

type_synonym py_dict = "(string \<times> py_value) list"

text \<open>Every \<^verbatim>\<open>raise\<close> of the program and of the operations it calls is a value.\<close>

datatype error =
    HTTPException int string
  | KeyError
  | IndexError
  | TypeError
  | JSONDecodeError
  | OverflowError
  | TransportError
  | JWSError
  | JWTError
  | InvalidRequestError
  | ValueError
  | JWTClaimsError
  | ExpiredSignatureError
  | JWKError
  | IntegrityError

text \<open>Truth value testing, as \<^verbatim>\<open>not x\<close> applies it.\<close>

fun py_truthy :: "py_value \<Rightarrow> bool" where
  "py_truthy PyNone = False"
| "py_truthy (PyBool b) = b"
| "py_truthy (PyInt n) = (n \<noteq> 0)"
| "py_truthy (PyStr s) = (s \<noteq> [])"
| "py_truthy (PyDatetime d) = True"
| "py_truthy (PyList xs) = (xs \<noteq> [])"
| "py_truthy (PyDict kvs) = (kvs \<noteq> [])"

text \<open>
  Subscription \<^verbatim>\<open>v[k]\<close> with a string key and \<^verbatim>\<open>v[i]\<close> with a natural index: a missing
  key is a \<^verbatim>\<open>KeyError\<close>, an index out of range an \<^verbatim>\<open>IndexError\<close>, a value that cannot
  be subscripted that way a \<^verbatim>\<open>TypeError\<close>.
\<close>

fun getitem_key :: "py_value \<Rightarrow> string \<Rightarrow> error + py_value" where
  "getitem_key (PyDict kvs) k =
     (case map_of kvs k of None \<Rightarrow> Inl KeyError | Some v \<Rightarrow> Inr v)"
| "getitem_key v k = Inl TypeError"

fun getitem_index :: "py_value \<Rightarrow> nat \<Rightarrow> error + py_value" where
  "getitem_index (PyList xs) i = (if i < length xs then Inr (xs ! i) else Inl IndexError)"
| "getitem_index (PyStr s) i = (if i < length s then Inr (PyStr [s ! i]) else Inl IndexError)"
| "getitem_index (PyDict kvs) i = Inl KeyError"
| "getitem_index v i = Inl TypeError"

text \<open>\<^verbatim>\<open>d[k] = v\<close>: the value of an existing key is replaced in place, a new key is appended.\<close>

fun dict_setitem :: "string \<Rightarrow> py_value \<Rightarrow> py_dict \<Rightarrow> py_dict" where
  "dict_setitem k v [] = [(k, v)]"
| "dict_setitem k v ((k', v') # kvs) =
     (if k' = k then (k, v) # kvs else (k', v') # dict_setitem k v kvs)"

text \<open>\<^verbatim>\<open>d.update(other)\<close> sets the entries of \<^verbatim>\<open>other\<close> one after the other.\<close>

fun dict_update :: "py_dict \<Rightarrow> py_dict \<Rightarrow> py_dict" where
  "dict_update d [] = d"
| "dict_update d ((k, v) # other) = dict_update (dict_setitem k v d) other"

text \<open>What \<^verbatim>\<open>json.dumps\<close> accepts: every value but a \<^verbatim>\<open>datetime\<close>, at any depth.\<close>

fun json_serializable :: "py_value \<Rightarrow> bool" where
  "json_serializable (PyDatetime d) = False"
| "json_serializable (PyList xs) = list_all json_serializable xs"
| "json_serializable (PyDict kvs) = list_all json_serializable (map snd kvs)"
| "json_serializable v = True"

section \<open>Dictionary objects on the heap\<close>

text \<open>
  Python passes a dictionary by reference, and \<^verbatim>\<open>update\<close> and item assignment mutate
  the object. The dictionaries that are mutated live in a heap: the list of the objects
  allocated so far, a reference being the position of its object. Allocation appends.
  A reference that the program holds is the position of an object of the heap.
  The values inside a dictionary are never mutated by this program, so they are kept as
  values.
\<close>

type_synonym ref = nat
type_synonym heap = "py_dict list"

definition heap_alloc :: "heap \<Rightarrow> py_dict \<Rightarrow> ref \<times> heap" where
  "heap_alloc h d = (length h, h @ [d])"

text \<open>\<^verbatim>\<open>data.copy()\<close>: a new object with the entries of the old one.\<close>

definition dict_copy :: "heap \<Rightarrow> ref \<Rightarrow> ref \<times> heap" where
  "dict_copy h r = heap_alloc h (h ! r)"

definition heap_update :: "heap \<Rightarrow> ref \<Rightarrow> py_dict \<Rightarrow> heap" where
  "heap_update h r other = h[r := dict_update (h ! r) other]"

section \<open>Time\<close>

text \<open>
  The proleptic Gregorian ordinal of a date, as \<^verbatim>\<open>datetime\<close> computes it, and the
  constructor \<^verbatim>\<open>datetime(year, month, day, hour, minute, second)\<close>. The program
  calls the constructor on one valid date; the \<^verbatim>\<open>ValueError\<close> of an invalid one is not
  modelled.
\<close>

definition is_leap :: "int \<Rightarrow> bool" where
  "is_leap year = (year mod 4 = 0 \<and> (year mod 100 \<noteq> 0 \<or> year mod 400 = 0))"

definition days_before_year :: "int \<Rightarrow> int" where
  "days_before_year year =
     (let y = year - 1 in y * 365 + y div 4 - y div 100 + y div 400)"

definition days_before_month :: "int \<Rightarrow> int \<Rightarrow> int" where
  "days_before_month year month =
     [0, 0, 31, 59, 90, 120, 151, 181, 212, 243, 273, 304, 334] ! nat month
       + (if 2 < month \<and> is_leap year then 1 else 0)"

definition ymd2ord :: "int \<Rightarrow> int \<Rightarrow> int \<Rightarrow> int" where
  "ymd2ord year month day = days_before_year year + days_before_month year month + day"

definition mk_datetime :: "int \<Rightarrow> int \<Rightarrow> int \<Rightarrow> int \<Rightarrow> int \<Rightarrow> int \<Rightarrow> datetime" where
  "mk_datetime year month day hour minute second =
     ((((ymd2ord year month day - ymd2ord 1970 1 1) * 24 + hour) * 60 + minute) * 60
        + second) * 1000000"

definition datetime_min :: datetime where
  "datetime_min = mk_datetime 1 1 1 0 0 0"

definition datetime_max :: datetime where
  "datetime_max = mk_datetime 9999 12 31 23 59 59 + 999999"

definition timedelta_minutes :: "int \<Rightarrow> int" where
  "timedelta_minutes m = m * 60 * 1000000"

text \<open>\<^verbatim>\<open>datetime + timedelta\<close> raises \<^verbatim>\<open>OverflowError\<close> outside the years 1 to 9999.\<close>

definition datetime_add :: "datetime \<Rightarrow> int \<Rightarrow> error + datetime" where
  "datetime_add d delta =
     (if datetime_min \<le> d + delta \<and> d + delta \<le> datetime_max then Inr (d + delta)
      else Inl OverflowError)"

text \<open>
  \<^verbatim>\<open>calendar.timegm(d.utctimetuple())\<close>: the whole seconds since the epoch; the
  microseconds are dropped.
\<close>

definition timegm :: "datetime \<Rightarrow> int" where
  "timegm d = d div 1000000"

section \<open>The signing library\<close>

text \<open>
  The tokens are made by \<^verbatim>\<open>jose.jwt\<close>, a library outside this repository. It is
  modelled by what it does with its arguments. A signed token is kept as its three parts,
  the header, the payload and the signature; the compact serialisation of the parts into
  one string is one-to-one and is left out. The keyed signature is a parameter
  \<open>sign\<close>: the signature of a signing input (header and payload) under a key, or
  \<open>None\<close> when the library refuses the key.
\<close>

record signed_token =
  header :: py_dict
  payload :: py_dict
  signature :: string

type_synonym signer = "py_value \<Rightarrow> py_dict \<times> py_dict \<Rightarrow> string option"

text \<open>
  \<^verbatim>\<open>jwt.encode\<close> first replaces, in the dictionary it is given, each of the claims
  \<^verbatim>\<open>exp\<close>, \<^verbatim>\<open>iat\<close> and \<^verbatim>\<open>nbf\<close> that holds a \<^verbatim>\<open>datetime\<close> by its whole seconds since
  the epoch.
\<close>

fun convert_time_claims :: "string list \<Rightarrow> py_dict \<Rightarrow> py_dict" where
  "convert_time_claims [] claims = claims"
| "convert_time_claims (time_claim # rest) claims =
     convert_time_claims rest
       (case map_of claims time_claim of
          Some (PyDatetime d) \<Rightarrow> dict_setitem time_claim (PyInt (timegm d)) claims
        | _ \<Rightarrow> claims)"

text \<open>
  Then the header \<^verbatim>\<open>{"typ": "JWT", "alg": algorithm}\<close>, updated with the caller's
  headers, and the claims are serialised as JSON (a \<^verbatim>\<open>TypeError\<close> for a value that
  JSON does not have) and signed (a \<^verbatim>\<open>JWSError\<close> when the key is refused).
\<close>

definition jwt_encode ::
  "signer \<Rightarrow> heap \<Rightarrow> ref \<Rightarrow> py_value \<Rightarrow> string \<Rightarrow> py_dict \<Rightarrow> (error + signed_token) \<times> heap" where
  "jwt_encode sign h claims key algorithm headers =
     (let h' = h[claims := convert_time_claims [''exp'', ''iat'', ''nbf''] (h ! claims)];
          hdr = dict_update [(''typ'', PyStr ''JWT''), (''alg'', PyStr algorithm)] headers;
          body = h' ! claims
      in if \<not> (json_serializable (PyDict hdr) \<and> json_serializable (PyDict body))
         then (Inl TypeError, h')
         else case sign key (hdr, body) of
                None \<Rightarrow> (Inl JWSError, h')
              | Some s \<Rightarrow> (Inr \<lparr>header = hdr, payload = body, signature = s\<rparr>, h'))"

text \<open>
  \<^verbatim>\<open>jwt.decode(token, key)\<close>, with the options of the library at their defaults and
  no audience, issuer, subject or access token given. It checks the signature of the
  token under the key, validates the registered claims of the payload, and returns the
  claims. The validation reads the verifier's clock \<^verbatim>\<open>datetime.utcnow()\<close>, here the
  argument \<open>utcnow\<close>, in whole seconds.

  Before it checks the signature the library reads the key: it tries the key as a JSON
  text (\<^verbatim>\<open>json.loads\<close>) and takes what it reads, a value, a JWK or a set of keys, in
  place of the key. A JSON text begins, after blanks, with one of the characters
  \<^verbatim>\<open>" { [ - 0..9 t f n N I\<close>; a string that begins otherwise is no JSON text and is
  the key as it is, and the check is the signature computed again under that key. The
  check under a key that the library reads first is the parameter \<open>check_read_key\<close>
  (\<open>None\<close> when it accepts, or the exception).
\<close>

definition json_start :: "string \<Rightarrow> bool" where
  "json_start s =
     (case dropWhile (\<lambda>c. c \<in> set [CHR 0x20, CHR 0x09, CHR 0x0A, CHR 0x0D]) s of
        [] \<Rightarrow> False
      | c # rest \<Rightarrow> c \<in> set (CHR 0x22 # ''{[-0123456789tfnNI''))"

definition check_signature ::
  "signer \<Rightarrow> (py_value \<Rightarrow> signed_token \<Rightarrow> error option) \<Rightarrow> signed_token \<Rightarrow> py_value
     \<Rightarrow> error option" where
  "check_signature sign check_read_key token key =
     (if (case key of PyStr s \<Rightarrow> \<not> json_start s | _ \<Rightarrow> False)
      then (case sign key (header token, payload token) of
              None \<Rightarrow> Some JWKError
            | Some s \<Rightarrow> if s = signature token then None else Some JWTError)
      else check_read_key key token)"

text \<open>
  The numeric claims go through \<^verbatim>\<open>int(value)\<close>. Python's reading of a string as an
  integer is the parameter \<open>int_of_str\<close>, \<open>None\<close> where \<^verbatim>\<open>int\<close> raises \<^verbatim>\<open>ValueError\<close>.
\<close>

definition py_int :: "(string \<Rightarrow> int option) \<Rightarrow> py_value \<Rightarrow> error + int" where
  "py_int int_of_str v =
     (case v of
        PyInt n \<Rightarrow> Inr n
      | PyBool b \<Rightarrow> Inr (if b then 1 else 0)
      | PyStr s \<Rightarrow> (case int_of_str s of None \<Rightarrow> Inl ValueError | Some n \<Rightarrow> Inr n)
      | _ \<Rightarrow> Inl TypeError)"

text \<open>
  Each validator gives the exception it raises, or \<open>None\<close> when it passes; a claim that
  is absent passes. A \<^verbatim>\<open>ValueError\<close> of \<^verbatim>\<open>int\<close> is raised again as \<^verbatim>\<open>JWTClaimsError\<close>.
\<close>

definition validate_iat :: "(string \<Rightarrow> int option) \<Rightarrow> py_dict \<Rightarrow> error option" where
  "validate_iat int_of_str claims =
     (case map_of claims ''iat'' of
        None \<Rightarrow> None
      | Some v \<Rightarrow>
          (case py_int int_of_str v of
             Inl e \<Rightarrow> Some (if e = ValueError then JWTClaimsError else e)
           | Inr iat \<Rightarrow> None))"

definition validate_nbf :: "(string \<Rightarrow> int option) \<Rightarrow> int \<Rightarrow> py_dict \<Rightarrow> error option" where
  "validate_nbf int_of_str now claims =
     (case map_of claims ''nbf'' of
        None \<Rightarrow> None
      | Some v \<Rightarrow>
          (case py_int int_of_str v of
             Inl e \<Rightarrow> Some (if e = ValueError then JWTClaimsError else e)
           | Inr nbf \<Rightarrow> if nbf > now then Some JWTClaimsError else None))"

text \<open>A token is expired when its \<^verbatim>\<open>exp\<close> is before the second of the verifier's clock.\<close>

definition validate_exp :: "(string \<Rightarrow> int option) \<Rightarrow> int \<Rightarrow> py_dict \<Rightarrow> error option" where
  "validate_exp int_of_str now claims =
     (case map_of claims ''exp'' of
        None \<Rightarrow> None
      | Some v \<Rightarrow>
          (case py_int int_of_str v of
             Inl e \<Rightarrow> Some (if e = ValueError then JWTClaimsError else e)
           | Inr exp \<Rightarrow> if exp < now then Some ExpiredSignatureError else None))"

text \<open>
  No audience and no access token are given, so a token that has an \<^verbatim>\<open>aud\<close> or an
  \<^verbatim>\<open>at_hash\<close> claim is refused; \<^verbatim>\<open>sub\<close> and \<^verbatim>\<open>jti\<close> must be strings.
\<close>

definition validate_aud :: "py_dict \<Rightarrow> error option" where
  "validate_aud claims =
     (case map_of claims ''aud'' of None \<Rightarrow> None | Some v \<Rightarrow> Some JWTClaimsError)"

definition validate_sub :: "py_dict \<Rightarrow> error option" where
  "validate_sub claims =
     (case map_of claims ''sub'' of
        None \<Rightarrow> None
      | Some (PyStr s) \<Rightarrow> None
      | Some v \<Rightarrow> Some JWTClaimsError)"

definition validate_jti :: "py_dict \<Rightarrow> error option" where
  "validate_jti claims =
     (case map_of claims ''jti'' of
        None \<Rightarrow> None
      | Some (PyStr s) \<Rightarrow> None
      | Some v \<Rightarrow> Some JWTClaimsError)"

definition validate_at_hash :: "py_dict \<Rightarrow> error option" where
  "validate_at_hash claims =
     (case map_of claims ''at_hash'' of None \<Rightarrow> None | Some v \<Rightarrow> Some JWTClaimsError)"

text \<open>The validators run in this order; the first exception ends the call.\<close>

fun first_error :: "error option list \<Rightarrow> error option" where
  "first_error [] = None"
| "first_error (None # rest) = first_error rest"
| "first_error (Some e # rest) = Some e"

definition validate_claims :: "(string \<Rightarrow> int option) \<Rightarrow> int \<Rightarrow> py_dict \<Rightarrow> error option" where
  "validate_claims int_of_str now claims =
     first_error
       [validate_iat int_of_str claims,
        validate_nbf int_of_str now claims,
        validate_exp int_of_str now claims,
        validate_aud claims,
        validate_sub claims,
        validate_jti claims,
        validate_at_hash claims]"

definition jwt_decode ::
  "signer \<Rightarrow> (py_value \<Rightarrow> signed_token \<Rightarrow> error option) \<Rightarrow> (string \<Rightarrow> int option)
     \<Rightarrow> datetime \<Rightarrow> signed_token \<Rightarrow> py_value \<Rightarrow> error + py_dict" where
  "jwt_decode sign check_read_key int_of_str utcnow token key =
     (case check_signature sign check_read_key token key of
        Some e \<Rightarrow> Inl e
      | None \<Rightarrow>
          (case validate_claims int_of_str (timegm utcnow) (payload token) of
             Some e \<Rightarrow> Inl e
           | None \<Rightarrow> Inr (payload token)))"

section \<open>The token issuer\<close>

definition ALGORITHM :: string where
  "ALGORITHM = ''HS256''"

definition ACCESS_TOKEN_EXPIRE_MINUTES :: int where
  "ACCESS_TOKEN_EXPIRE_MINUTES = 2"

text \<open>
  \<^verbatim>\<open>create_jwt_token(data, secret)\<close>. The clock \<^verbatim>\<open>datetime.utcnow()\<close> is the argument
  \<open>utcnow\<close>; \<open>data\<close> is the reference of the caller's dictionary. The result is the
  token or the exception raised, and the heap after the call.
\<close>

definition create_jwt_token ::
  "signer \<Rightarrow> datetime \<Rightarrow> heap \<Rightarrow> ref \<Rightarrow> py_value \<Rightarrow> (error + signed_token) \<times> heap" where
  "create_jwt_token sign utcnow h data secret =
     (let (to_encode, h1) = dict_copy h data in
      case datetime_add utcnow (timedelta_minutes ACCESS_TOKEN_EXPIRE_MINUTES) of
        Inl e \<Rightarrow> (Inl e, h1)
      | Inr expire0 \<Rightarrow>
          let expire = min expire0 (mk_datetime 2038 1 19 3 14 7);
              h2 = heap_update h1 to_encode [(''exp'', PyDatetime expire)];
              headers = [(''typ'', PyStr ''JWT''), (''alg'', PyStr ALGORITHM)]
          in jwt_encode sign h2 to_encode secret ALGORITHM headers)"

section \<open>The secret resolver\<close>

text \<open>
  The answer of the HTTP client: the status code and the body, \<open>None\<close> for a body that
  is not JSON. The network is the parameter \<open>client_get\<close>, from the URL to the response
  or to the exception of the transport. The \<^verbatim>\<open>print\<close> calls of the resolver write to the
  log only and are left out.
\<close>

record response =
  status_code :: int
  json_body :: "py_value option"

definition response_json :: "response \<Rightarrow> error + py_value" where
  "response_json r = (case json_body r of None \<Rightarrow> Inl JSONDecodeError | Some v \<Rightarrow> Inr v)"

definition kong_url :: "string \<Rightarrow> string" where
  "kong_url consumer_id = ''http://kong:8001/consumers/'' @ consumer_id @ ''/jwt''"

text \<open>The expression \<^verbatim>\<open>kong_data['data'][0]["secret"]\<close>.\<close>

definition first_secret :: "py_value \<Rightarrow> error + py_value" where
  "first_secret kong_data =
     (case getitem_key kong_data ''data'' of
        Inl e \<Rightarrow> Inl e
      | Inr records \<Rightarrow>
          (case getitem_index records 0 of
             Inl e \<Rightarrow> Inl e
           | Inr record \<Rightarrow> getitem_key record ''secret''))"

definition get_secret_from_kong ::
  "(string \<Rightarrow> error + response) \<Rightarrow> string \<Rightarrow> error + py_value" where
  "get_secret_from_kong client_get consumer_id =
     (case client_get (kong_url consumer_id) of
        Inl e \<Rightarrow> Inl e
      | Inr response \<Rightarrow>
          if status_code response \<noteq> 200
          then Inl (HTTPException (status_code response) ''Failed to fetch secret from Kong'')
          else
            (case response_json response of
               Inl e \<Rightarrow> Inl e
             | Inr kong_data \<Rightarrow>
                 (case first_secret kong_data of
                    Inl e \<Rightarrow> Inl e
                  | Inr secret \<Rightarrow>
                      if \<not> py_truthy secret
                      then Inl (HTTPException 404
                                  ''No JWT credentials found for the specified consumer'')
                      else Inr secret)))"

text \<open>
  The spec speaks of a success status of HTTP: the class 2xx, which is also what the
  client's \<^verbatim>\<open>is_success\<close> tests. The program compares with 200.
\<close>

definition http_success_status :: "int \<Rightarrow> bool" where
  "http_success_status code = (200 \<le> code \<and> code \<le> 299)"

section \<open>The endpoint\<close>

record TokenData =
  iss :: string

definition generate_token ::
  "signer \<Rightarrow> (string \<Rightarrow> error + response) \<Rightarrow> datetime \<Rightarrow> heap \<Rightarrow> TokenData \<Rightarrow> string
     \<Rightarrow> (error + (string \<times> signed_token) list) \<times> heap" where
  "generate_token sign client_get utcnow h data consumer_id =
     (case get_secret_from_kong client_get consumer_id of
        Inl e \<Rightarrow> (Inl e, h)
      | Inr secret \<Rightarrow>
          let (payload, h1) = heap_alloc h [(''iss'', PyStr (iss data))] in
          (case create_jwt_token sign utcnow h1 payload secret of
             (Inl e, h2) \<Rightarrow> (Inl e, h2)
           | (Inr token, h2) \<Rightarrow> (Inr [(''token'', token)], h2)))"

section \<open>The items\<close>

text \<open>
  The table of \<^verbatim>\<open>Item\<close> is the list of its rows. Each operation returns its result and
  the table after the call.

  The primary key is an \<^verbatim>\<open>INTEGER\<close> column of SQLite, a signed number of 64 bits.
  \<^verbatim>\<open>session.get\<close> binds the \<open>item_id\<close> of the request, an unbounded Python \<^verbatim>\<open>int\<close>, as
  the key of its query: outside that range the driver raises \<^verbatim>\<open>OverflowError\<close>, within
  it the lookup finds the row of the key or nothing.
\<close>

record Item =
  id' :: int
  name :: string
  description :: "string option"

type_synonym database = "Item list"

definition sqlite_integer :: "int \<Rightarrow> bool" where
  "sqlite_integer n = (- 9223372036854775808 \<le> n \<and> n \<le> 9223372036854775807)"

definition session_get :: "database \<Rightarrow> int \<Rightarrow> error + Item option" where
  "session_get db item_id =
     (if sqlite_integer item_id then Inr (find (\<lambda>row. id' row = item_id) db)
      else Inl OverflowError)"

definition read_item :: "database \<Rightarrow> int \<Rightarrow> (error + Item) \<times> database" where
  "read_item db item_id =
     (case session_get db item_id of
        Inl e \<Rightarrow> (Inl e, db)
      | Inr None \<Rightarrow> (Inl (HTTPException 404 ''Item not found''), db)
      | Inr (Some item) \<Rightarrow> (Inr item, db))"

text \<open>
  The commit of \<^verbatim>\<open>update_item\<close> writes the two assigned columns of the row whose
  primary key is that of the loaded object; \<^verbatim>\<open>session.refresh\<close> reads the row again.

  The field is declared \<^verbatim>\<open>description: str = None\<close>: a request that leaves it out gives
  an item whose description is \<open>None\<close>. Whether the column accepts \<^verbatim>\<open>NULL\<close> is decided
  by the version of the library that reads the declaration (the type \<^verbatim>\<open>str\<close> makes it
  \<^verbatim>\<open>NOT NULL\<close> under the current one, the default \<^verbatim>\<open>None\<close> made it nullable under
  earlier ones); it is the parameter \<open>nullable\<close>. Writing \<^verbatim>\<open>NULL\<close> to a \<^verbatim>\<open>NOT NULL\<close>
  column raises \<^verbatim>\<open>IntegrityError\<close>, and the transaction is rolled back.
\<close>

definition commit_update :: "bool \<Rightarrow> database \<Rightarrow> Item \<Rightarrow> error + database" where
  "commit_update nullable db existing_item =
     (if description existing_item = None \<and> \<not> nullable then Inl IntegrityError
      else Inr (map (\<lambda>row. if id' row = id' existing_item
                            then row\<lparr>name := name existing_item,
                                     description := description existing_item\<rparr>
                            else row) db))"

definition session_refresh :: "database \<Rightarrow> Item \<Rightarrow> error + Item" where
  "session_refresh db item =
     (case session_get db (id' item) of
        Inl e \<Rightarrow> Inl e
      | Inr None \<Rightarrow> Inl InvalidRequestError
      | Inr (Some row) \<Rightarrow> Inr row)"

definition update_item :: "bool \<Rightarrow> database \<Rightarrow> int \<Rightarrow> Item \<Rightarrow> (error + Item) \<times> database" where
  "update_item nullable db item_id item =
     (case session_get db item_id of
        Inl e \<Rightarrow> (Inl e, db)
      | Inr None \<Rightarrow> (Inl (HTTPException 404 ''Item not found''), db)
      | Inr (Some existing_item) \<Rightarrow>
          let existing_item = existing_item\<lparr>name := name item, description := description item\<rparr>
          in (case commit_update nullable db existing_item of
                Inl e \<Rightarrow> (Inl e, db)
              | Inr db' \<Rightarrow> (session_refresh db' existing_item, db')))"

definition delete_item :: "database \<Rightarrow> int \<Rightarrow> (error + unit) \<times> database" where
  "delete_item db item_id =
     (case session_get db item_id of
        Inl e \<Rightarrow> (Inl e, db)
      | Inr None \<Rightarrow> (Inl (HTTPException 404 ''Item not found''), db)
      | Inr (Some item) \<Rightarrow> (Inr (), filter (\<lambda>row. id' row \<noteq> id' item) db))"

section \<open>Stand-ins for the concrete runs\<close>

text \<open>
  A keyed signer that accepts every string key, a network in which the credential
  service gives one fixed answer, a reading of the strings of decimal digits as
  integers, and a check that refuses every key that the library would read first. The
  concrete runs below use them.
\<close>

definition toy_sign :: signer where
  "toy_sign key m =
     (case key of PyStr s \<Rightarrow> Some (s @ concat (map fst (snd m))) | _ \<Rightarrow> None)"

definition kong_answers :: "response \<Rightarrow> string \<Rightarrow> error + response" where
  "kong_answers r url = Inr r"

definition digits_int :: "string \<Rightarrow> int option" where
  "digits_int s =
     (if s \<noteq> [] \<and> list_all (\<lambda>c. c \<in> set ''0123456789'') s
      then Some (foldl (\<lambda>n c. 10 * n + (of_char c - 48)) 0 s)
      else None)"

definition refuse_read_key :: "py_value \<Rightarrow> signed_token \<Rightarrow> error option" where
  "refuse_read_key key token = Some JWKError"

section \<open>Constants of the time model\<close>

text \<open>
  The ceiling \<^verbatim>\<open>datetime(2038, 1, 19, 3, 14, 7)\<close> is second 2147483647 of the epoch, and
  the window of \<^verbatim>\<open>ACCESS_TOKEN_EXPIRE_MINUTES\<close> minutes is 120 seconds.
\<close>

lemma ceiling_value: "mk_datetime 2038 1 19 3 14 7 = 2147483647000000"
  by (simp add: mk_datetime_def ymd2ord_def days_before_year_def days_before_month_def is_leap_def)

lemma datetime_max_value: "datetime_max = 253402300799999999"
  by (simp add: datetime_max_def mk_datetime_def ymd2ord_def days_before_year_def
      days_before_month_def is_leap_def)

lemma datetime_min_value: "datetime_min = - 62135596800000000"
  by (simp add: datetime_min_def mk_datetime_def ymd2ord_def days_before_year_def
      days_before_month_def is_leap_def)

lemma window_value: "timedelta_minutes ACCESS_TOKEN_EXPIRE_MINUTES = 120000000"
  by (simp add: timedelta_minutes_def ACCESS_TOKEN_EXPIRE_MINUTES_def)

lemma timegm_le: "timegm d * 1000000 \<le> d"
  unfolding timegm_def using pos_mod_sign [of 1000000 d]
  by (simp add: minus_mod_eq_div_mult [symmetric])



section \<open>Dictionaries\<close>

lemma map_of_dict_setitem: "map_of (dict_setitem k v d) = (map_of d)(k \<mapsto> v)"
  by (induction d) (auto simp: fun_eq_iff)

lemma keys_dict_setitem:
  "map fst (dict_setitem k v d) = (if k \<in> fst ` set d then map fst d else map fst d @ [k])"
proof (induction d)
  case Nil
  show ?case by simp
next
  case (Cons p d)
  show ?case
  proof (cases "fst p = k")
    case True
    then show ?thesis by (cases p) simp
  next
    case False
    then show ?thesis using Cons.IH by (cases p) auto
  qed
qed

lemma keys_dict_setitem_present:
  "map_of d k = Some v' \<Longrightarrow> map fst (dict_setitem k v d) = map fst d"
proof -
  assume "map_of d k = Some v'"
  then have "(k, v') \<in> set d" by (rule map_of_SomeD)
  then have "k \<in> fst ` set d" by force
  then show ?thesis by (simp add: keys_dict_setitem)
qed

lemma distinct_keys_dict_setitem:
  "distinct (map fst d) \<Longrightarrow> distinct (map fst (dict_setitem k v d))"
  by (auto simp: keys_dict_setitem)

lemma dict_setitem_twice: "dict_setitem k v' (dict_setitem k v d) = dict_setitem k v' d"
  by (induction d) auto

lemma serializable_dict_setitem:
  "json_serializable v \<Longrightarrow> list_all json_serializable (map snd d) \<Longrightarrow>
     list_all json_serializable (map snd (dict_setitem k v d))"
  by (induction d) auto

lemma serializable_no_datetime:
  assumes "list_all json_serializable (map snd d)"
  shows "map_of d k \<noteq> Some (PyDatetime t)"
proof
  assume "map_of d k = Some (PyDatetime t)"
  then have "(k, PyDatetime t) \<in> set d" by (rule map_of_SomeD)
  then have "PyDatetime t \<in> set (map snd d)" by force
  moreover have "\<forall>v \<in> set (map snd d). json_serializable v"
    using assms by (simp only: list_all_iff)
  ultimately have "json_serializable (PyDatetime t)" by blast
  then show False by simp
qed

lemma count_list_distinct: "distinct xs \<Longrightarrow> x \<in> set xs \<Longrightarrow> count_list xs x = 1"
  by (induction xs) auto

section \<open>The encoder\<close>

lemma keys_convert_time_claims: "map fst (convert_time_claims tcs d) = map fst d"
proof (induction tcs arbitrary: d)
  case Nil
  show ?case by simp
next
  case (Cons tc tcs)
  show ?case
    by (simp add: Cons.IH keys_dict_setitem_present split: option.split py_value.split)
qed

lemma map_of_convert_time_claims:
  "map_of (convert_time_claims tcs d) k =
     (case map_of d k of
        Some (PyDatetime t) \<Rightarrow> if k \<in> set tcs then Some (PyInt (timegm t)) else Some (PyDatetime t)
      | x \<Rightarrow> x)"
proof (induction tcs arbitrary: d)
  case Nil
  show ?case by (simp split: option.split py_value.split)
next
  case (Cons tc tcs)
  show ?case
    by (auto simp: Cons.IH map_of_dict_setitem split: option.split py_value.split)
qed

lemma convert_time_claims_serializable:
  "list_all json_serializable (map snd d) \<Longrightarrow> convert_time_claims tcs d = d"
  by (induction tcs) (auto simp: serializable_no_datetime split: option.split py_value.split)

lemma issued_claims_serializable:
  assumes "list_all json_serializable (map snd d)"
  shows "convert_time_claims [''exp'', ''iat'', ''nbf''] (dict_setitem ''exp'' (PyDatetime t) d)
           = dict_setitem ''exp'' (PyInt (timegm t)) d"
proof -
  have ok: "list_all json_serializable (map snd (dict_setitem ''exp'' (PyInt (timegm t)) d))"
    using assms by (simp add: serializable_dict_setitem)
  have "convert_time_claims [''exp'', ''iat'', ''nbf''] (dict_setitem ''exp'' (PyDatetime t) d)
      = convert_time_claims [''iat'', ''nbf''] (dict_setitem ''exp'' (PyInt (timegm t)) d)"
    by (subst convert_time_claims.simps(2)) (simp add: map_of_dict_setitem dict_setitem_twice)
  then show ?thesis
    by (simp only: convert_time_claims_serializable [OF ok])
qed

lemma jwt_encode_fresh:
  "jwt_encode sign (h @ [d]) (length h) key algorithm headers =
     (let body = convert_time_claims [''exp'', ''iat'', ''nbf''] d;
          hdr = dict_update [(''typ'', PyStr ''JWT''), (''alg'', PyStr algorithm)] headers
      in if \<not> (json_serializable (PyDict hdr) \<and> json_serializable (PyDict body))
         then (Inl TypeError, h @ [body])
         else case sign key (hdr, body) of
                None \<Rightarrow> (Inl JWSError, h @ [body])
              | Some s \<Rightarrow> (Inr \<lparr>header = hdr, payload = body, signature = s\<rparr>, h @ [body]))"
  by (simp add: jwt_encode_def Let_def split: option.split
      del: convert_time_claims.simps json_serializable.simps dict_update.simps)

lemma jwt_header:
  "dict_update [(''typ'', PyStr ''JWT''), (''alg'', PyStr ALGORITHM)]
     [(''typ'', PyStr ''JWT''), (''alg'', PyStr ALGORITHM)] =
   [(''typ'', PyStr ''JWT''), (''alg'', PyStr ''HS256'')]"
  by (simp add: ALGORITHM_def)

lemma jwt_header_serializable:
  "json_serializable (PyDict [(''typ'', PyStr ''JWT''), (''alg'', PyStr ''HS256'')])"
  by simp

section \<open>What \<open>create_jwt_token\<close> computes\<close>

text \<open>
  The copy is the object allocated last, so the update and the encoder work on it and
  on nothing else. The call fails with \<^verbatim>\<open>OverflowError\<close> when the expiry leaves the
  range of \<^verbatim>\<open>datetime\<close>, with \<^verbatim>\<open>TypeError\<close> when a claim cannot be serialised, and
  with \<^verbatim>\<open>JWSError\<close> when the key is refused.
\<close>

lemma create_jwt_token_unfold:
  "create_jwt_token sign utcnow h data secret =
     (if datetime_min \<le> utcnow + 120000000 \<and> utcnow + 120000000 \<le> datetime_max
      then
        let body = convert_time_claims [''exp'', ''iat'', ''nbf'']
                     (dict_setitem ''exp'' (PyDatetime (min (utcnow + 120000000) 2147483647000000))
                        (h ! data));
            hdr = [(''typ'', PyStr ''JWT''), (''alg'', PyStr ''HS256'')]
        in if \<not> json_serializable (PyDict body) then (Inl TypeError, h @ [body])
           else case sign secret (hdr, body) of
                  None \<Rightarrow> (Inl JWSError, h @ [body])
                | Some s \<Rightarrow> (Inr \<lparr>header = hdr, payload = body, signature = s\<rparr>, h @ [body])
      else (Inl OverflowError, h @ [h ! data]))"
proof -
  have upd: "heap_update (h @ [h ! data]) (length h) [(''exp'', v)] =
      h @ [dict_setitem ''exp'' v (h ! data)]" for v
    by (simp add: heap_update_def)
  show ?thesis
    unfolding create_jwt_token_def dict_copy_def heap_alloc_def datetime_add_def window_value
      ceiling_value
    by (simp add: upd jwt_encode_fresh jwt_header jwt_header_serializable Let_def
        del: convert_time_claims.simps json_serializable.simps dict_update.simps)
qed

lemma issued_token:
  assumes "create_jwt_token sign utcnow h data secret = (Inr token, h')"
  shows "payload token =
           convert_time_claims [''exp'', ''iat'', ''nbf'']
             (dict_setitem ''exp'' (PyDatetime (min (utcnow + 120000000) 2147483647000000))
                (h ! data))"
    and "header token = [(''typ'', PyStr ''JWT''), (''alg'', PyStr ''HS256'')]"
    and "sign secret (header token, payload token) = Some (signature token)"
    and "h' = h @ [payload token]"
    and "json_serializable (PyDict (payload token))"
    and "datetime_min \<le> utcnow + 120000000"
    and "utcnow + 120000000 \<le> datetime_max"
  using assms
  by (auto simp add: create_jwt_token_unfold Let_def split: if_splits option.splits
      simp del: convert_time_claims.simps json_serializable.simps)

lemma issued_exp:
  assumes "create_jwt_token sign utcnow h data secret = (Inr token, h')"
  shows "map_of (payload token) ''exp'' =
           Some (PyInt (timegm (min (utcnow + 120000000) 2147483647000000)))"
  by (simp add: issued_token(1) [OF assms] map_of_convert_time_claims map_of_dict_setitem
      del: convert_time_claims.simps)





lemma validate_claims_exp_only:
  assumes "map_of claims ''exp'' = Some (PyInt e)"
    and "\<forall>k \<in> {''iat'', ''nbf'', ''aud'', ''sub'', ''jti'', ''at_hash''}. map_of claims k = None"
  shows "validate_claims int_of_str now claims
           = (if e < now then Some ExpiredSignatureError else None)"
  using assms
  by (simp add: validate_claims_def validate_iat_def validate_nbf_def validate_exp_def
      validate_aud_def validate_sub_def validate_jti_def validate_at_hash_def py_int_def)


lemma json_start_secret: "\<not> json_start ''s3cr3t''"
  by (simp add: json_start_def)


text \<open>
  A token is issued for every payload of JSON values, at every instant of the clock at
  which the expiry is a \<^verbatim>\<open>datetime\<close>, under every key that the signer accepts; its
  claims are the payload with \<^verbatim>\<open>exp\<close> set.
\<close>

lemma create_jwt_token_issues:
  assumes "list_all json_serializable (map snd (h ! data))"
    and "sign secret ([(''typ'', PyStr ''JWT''), (''alg'', PyStr ''HS256'')],
           dict_setitem ''exp'' (PyInt (timegm (min (utcnow + 120000000) 2147483647000000)))
             (h ! data)) = Some s"
    and "datetime_min \<le> utcnow" and "utcnow + 120000000 \<le> datetime_max"
  shows "create_jwt_token sign utcnow h data secret
           = (Inr \<lparr>header = [(''typ'', PyStr ''JWT''), (''alg'', PyStr ''HS256'')],
                   payload = dict_setitem ''exp''
                     (PyInt (timegm (min (utcnow + 120000000) 2147483647000000))) (h ! data),
                   signature = s\<rparr>,
              h @ [dict_setitem ''exp''
                     (PyInt (timegm (min (utcnow + 120000000) 2147483647000000))) (h ! data)])"
proof -
  have "datetime_min \<le> utcnow + 120000000"
    using assms(3) by simp
  then show ?thesis
    using assms(1,2,4)
    by (simp add: create_jwt_token_unfold issued_claims_serializable serializable_dict_setitem
        Let_def del: convert_time_claims.simps)
qed

section \<open>The failures of the resolver and the table\<close>

lemma getitem_key_error: "getitem_key v k = Inl e \<Longrightarrow> e = KeyError \<or> e = TypeError"
  by (cases v) (auto split: option.splits)

lemma getitem_index_error:
  "getitem_index v i = Inl e \<Longrightarrow> e = IndexError \<or> e = KeyError \<or> e = TypeError"
  by (cases v) (auto split: if_splits)

lemma first_secret_error:
  "first_secret kong_data = Inl e \<Longrightarrow> e = KeyError \<or> e = IndexError \<or> e = TypeError"
  unfolding first_secret_def
  by (auto split: sum.splits dest: getitem_key_error getitem_index_error)

lemma response_json_error: "response_json r = Inl e \<Longrightarrow> e = JSONDecodeError"
  by (auto simp: response_json_def split: option.splits)

lemma session_get_absent:
  "item_id \<notin> set (map id' db) \<Longrightarrow>
     session_get db item_id = (if sqlite_integer item_id then Inr None else Inl OverflowError)"
  by (auto simp: session_get_def find_None_iff)



section \<open>The claims\<close>

subsection \<open>C1: the decoded token keeps the issuer and bounds the expiry\<close>




subsection \<open>C2: the expiry is the window past the clock, clamped at the ceiling\<close>

text \<open>
  C2. When the issuance time plus the validity window exceeds the ceiling
  2038-01-19T03:14:07, the \<^verbatim>\<open>exp\<close> claim of the token is that ceiling, second
  2147483647; otherwise it is the issuance time plus the window, as the seconds that the
  encoder writes for a \<^verbatim>\<open>datetime\<close>.
\<close>

theorem create_jwt_token_exp_clamped:
  assumes "create_jwt_token sign utcnow h data secret = (Inr token, h')"
  shows "map_of (payload token) ''exp'' =
           Some (PyInt (if mk_datetime 2038 1 19 3 14 7
                            < utcnow + timedelta_minutes ACCESS_TOKEN_EXPIRE_MINUTES
                        then 2147483647
                        else timegm (utcnow + timedelta_minutes ACCESS_TOKEN_EXPIRE_MINUTES)))
         \<and> mk_datetime 2038 1 19 3 14 7 = 2147483647 * 1000000"
proof -
  have "timegm (min (utcnow + 120000000) 2147483647000000) =
          (if 2147483647000000 < utcnow + 120000000 then 2147483647
           else timegm (utcnow + 120000000))"
    by (simp add: timegm_def min_def)
  then show ?thesis
    using issued_exp [OF assms] by (simp add: window_value ceiling_value)
qed

text \<open>
  The theorem at an instant of 2023 and at 47 seconds before the ceiling.
\<close>

theorem create_jwt_token_exp_clamped_witness:
  "create_jwt_token toy_sign 1700000000500000 [[(''iss'', PyStr ''service-a'')]] 0
      (PyStr ''s3cr3t'')
    = (Inr \<lparr>header = [(''typ'', PyStr ''JWT''), (''alg'', PyStr ''HS256'')],
             payload = [(''iss'', PyStr ''service-a''), (''exp'', PyInt 1700000120)],
             signature = ''s3cr3tissexp''\<rparr>,
       [[(''iss'', PyStr ''service-a'')],
        [(''iss'', PyStr ''service-a''), (''exp'', PyInt 1700000120)]])
   \<and> map_of [(''iss'', PyStr ''service-a''), (''exp'', PyInt 1700000120)] ''exp''
     = Some (PyInt (timegm (1700000000500000 + timedelta_minutes ACCESS_TOKEN_EXPIRE_MINUTES)))
   \<and> create_jwt_token toy_sign 2147483600000000 [[(''iss'', PyStr ''service-a'')]] 0
      (PyStr ''s3cr3t'')
    = (Inr \<lparr>header = [(''typ'', PyStr ''JWT''), (''alg'', PyStr ''HS256'')],
             payload = [(''iss'', PyStr ''service-a''), (''exp'', PyInt 2147483647)],
             signature = ''s3cr3tissexp''\<rparr>,
       [[(''iss'', PyStr ''service-a'')],
        [(''iss'', PyStr ''service-a''), (''exp'', PyInt 2147483647)]])
   \<and> map_of [(''iss'', PyStr ''service-a''), (''exp'', PyInt 2147483647)] ''exp''
     = Some (PyInt 2147483647)"
proof -
  have before: "create_jwt_token toy_sign 1700000000500000 [[(''iss'', PyStr ''service-a'')]] 0
        (PyStr ''s3cr3t'')
      = (Inr \<lparr>header = [(''typ'', PyStr ''JWT''), (''alg'', PyStr ''HS256'')],
               payload = [(''iss'', PyStr ''service-a''), (''exp'', PyInt 1700000120)],
               signature = ''s3cr3tissexp''\<rparr>,
         [[(''iss'', PyStr ''service-a'')],
          [(''iss'', PyStr ''service-a''), (''exp'', PyInt 1700000120)]])"
    by (simp add: create_jwt_token_unfold datetime_min_value datetime_max_value toy_sign_def
        timegm_def Let_def)
  have late: "create_jwt_token toy_sign 2147483600000000 [[(''iss'', PyStr ''service-a'')]] 0
        (PyStr ''s3cr3t'')
      = (Inr \<lparr>header = [(''typ'', PyStr ''JWT''), (''alg'', PyStr ''HS256'')],
               payload = [(''iss'', PyStr ''service-a''), (''exp'', PyInt 2147483647)],
               signature = ''s3cr3tissexp''\<rparr>,
         [[(''iss'', PyStr ''service-a'')],
          [(''iss'', PyStr ''service-a''), (''exp'', PyInt 2147483647)]])"
    by (simp add: create_jwt_token_unfold datetime_min_value datetime_max_value toy_sign_def
        timegm_def Let_def)
  show ?thesis
    using before late
      create_jwt_token_exp_clamped [OF before] create_jwt_token_exp_clamped [OF late]
    by (simp add: window_value ceiling_value)
qed

subsection \<open>C3: the resolver fails upstream exactly on a status other than 200\<close>

text \<open>
  C3. For an answer of the credential service, \<open>get_secret_from_kong\<close> fails with
  the \<^verbatim>\<open>HTTPException\<close> that carries the status of the service and the detail
  \<^verbatim>\<open>Failed to fetch secret from Kong\<close> exactly when that status is not 200. When the
  status is 200 and the list under \<^verbatim>\<open>data\<close> has a first record with a field
  \<^verbatim>\<open>secret\<close>, the resolver takes that field: it returns it when it is truthy and fails
  with 404 otherwise. The spec speaks of a non-success status; the program refuses the
  success statuses other than 200 as well.
\<close>

theorem get_secret_from_kong_status:
  assumes "client_get (kong_url consumer_id) = Inr response"
  shows "(get_secret_from_kong client_get consumer_id
            = Inl (HTTPException (status_code response) ''Failed to fetch secret from Kong''))
           = (status_code response \<noteq> 200)
         \<and> (status_code response = 200
              \<and> response_json response = Inr kong_data
              \<and> getitem_key kong_data ''data'' = Inr (PyList (credential # credentials))
              \<and> getitem_key credential ''secret'' = Inr secret
            \<longrightarrow> get_secret_from_kong client_get consumer_id
                  = (if py_truthy secret then Inr secret
                     else Inl (HTTPException 404
                                 ''No JWT credentials found for the specified consumer'')))"
proof -
  have first: "first_secret kong_data = Inr secret"
    if "getitem_key kong_data ''data'' = Inr (PyList (credential # credentials))"
      and "getitem_key credential ''secret'' = Inr secret"
    using that by (simp add: first_secret_def)
  show ?thesis
    using assms
    by (auto simp add: get_secret_from_kong_def first split: sum.splits
        dest: response_json_error first_secret_error)
qed

text \<open>
  The theorem for a service that answers 200 with one credential, and for one that
  answers 404.
\<close>

theorem get_secret_from_kong_status_witness:
  "get_secret_from_kong
      (kong_answers \<lparr>status_code = 200,
         json_body = Some (PyDict [(''data'', PyList [PyDict [(''secret'', PyStr ''s3cr3t'')]])])\<rparr>)
      ''consumer-1'' = Inr (PyStr ''s3cr3t'')
   \<and> get_secret_from_kong (kong_answers \<lparr>status_code = 404, json_body = None\<rparr>) ''ghost''
       = Inl (HTTPException 404 ''Failed to fetch secret from Kong'')"
proof -
  let ?ok = "\<lparr>status_code = 200,
    json_body = Some (PyDict [(''data'', PyList [PyDict [(''secret'', PyStr ''s3cr3t'')]])])\<rparr>"
  let ?ghost = "\<lparr>status_code = 404, json_body = None\<rparr>"
  have a: "kong_answers ?ok (kong_url ''consumer-1'') = Inr ?ok"
    by (simp add: kong_answers_def)
  have b: "kong_answers ?ghost (kong_url ''ghost'') = Inr ?ghost"
    by (simp add: kong_answers_def)
  show ?thesis
    using get_secret_from_kong_status [where client_get = "kong_answers ?ok"
        and consumer_id = "''consumer-1''" and response = "?ok"
        and kong_data = "PyDict [(''data'', PyList [PyDict [(''secret'', PyStr ''s3cr3t'')]])]"
        and credential = "PyDict [(''secret'', PyStr ''s3cr3t'')]" and credentials = "[]"
        and secret = "PyStr ''s3cr3t''"]
      get_secret_from_kong_status [where client_get = "kong_answers ?ghost"
        and consumer_id = "''ghost''" and response = "?ghost"]
      a b
    by (simp add: response_json_def)
qed

text \<open>
  203 is a success status of HTTP, and the answer carries a list of credentials; the
  resolver fails with the upstream error all the same.
\<close>

theorem get_secret_from_kong_rejects_203:
  "http_success_status 203
   \<and> get_secret_from_kong
       (kong_answers \<lparr>status_code = 203,
          json_body = Some (PyDict [(''data'', PyList [PyDict [(''secret'', PyStr ''s3cr3t'')]])])\<rparr>)
       ''consumer-1''
     = Inl (HTTPException 203 ''Failed to fetch secret from Kong'')"
  by (simp add: http_success_status_def get_secret_from_kong_def kong_answers_def)

subsection \<open>C4: a consumer without credentials\<close>

text \<open>
  C4. The spec asks for the 404 of \<^verbatim>\<open>No JWT credentials found\<close> whenever a successful
  answer has no first secret. The program gives it for a field \<^verbatim>\<open>secret\<close> that is
  there and falsy. For the empty list of credentials the subscription \<^verbatim>\<open>[0]\<close> raises
  \<^verbatim>\<open>IndexError\<close>, and for a first record without the field \<^verbatim>\<open>["secret"]\<close> raises
  \<^verbatim>\<open>KeyError\<close>, before the test is reached.
\<close>

theorem get_secret_from_kong_no_credentials:
  "get_secret_from_kong
      (kong_answers \<lparr>status_code = 200, json_body = Some (PyDict [(''data'', PyList [])])\<rparr>)
      ''ghost'' = Inl IndexError
   \<and> get_secret_from_kong
      (kong_answers \<lparr>status_code = 200,
         json_body = Some (PyDict [(''data'', PyList [PyDict [(''key'', PyStr ''abc'')]])])\<rparr>)
      ''ghost'' = Inl KeyError"
  by (simp add: get_secret_from_kong_def kong_answers_def response_json_def first_secret_def)

subsection \<open>C5: one \<open>exp\<close> claim, never past the ceiling\<close>

text \<open>
  C5. For every payload dictionary (its keys are distinct), with or without an \<^verbatim>\<open>exp\<close>
  entry of its own, the token of \<open>create_jwt_token\<close> has exactly one \<^verbatim>\<open>exp\<close> claim,
  and its value is not past the ceiling 2038-01-19T03:14:07.
\<close>

theorem create_jwt_token_one_exp:
  assumes "distinct (map fst (h ! data))"
    and "create_jwt_token sign utcnow h data secret = (Inr token, h')"
  shows "count_list (map fst (payload token)) ''exp'' = 1
         \<and> (\<exists>e. map_of (payload token) ''exp'' = Some (PyInt e)
                \<and> e * 1000000 \<le> mk_datetime 2038 1 19 3 14 7)"
proof -
  let ?d = "dict_setitem ''exp'' (PyDatetime (min (utcnow + 120000000) 2147483647000000))
              (h ! data)"
  have keys: "map fst (payload token) = map fst ?d"
    by (simp only: issued_token(1) [OF assms(2)] keys_convert_time_claims)
  have "distinct (map fst ?d)"
    using assms(1) by (rule distinct_keys_dict_setitem)
  moreover have "''exp'' \<in> set (map fst ?d)"
    by (simp add: keys_dict_setitem)
  ultimately have one: "count_list (map fst (payload token)) ''exp'' = 1"
    unfolding keys by (rule count_list_distinct)
  have "timegm (min (utcnow + 120000000) 2147483647000000) * 1000000 \<le> 2147483647000000"
    using timegm_le [of "min (utcnow + 120000000) 2147483647000000"] by simp
  then show ?thesis
    using one issued_exp [OF assms(2)] by (simp add: ceiling_value)
qed

text \<open>
  The theorem for a payload that brings an \<^verbatim>\<open>exp\<close> of its own, issued at the ceiling.
\<close>

theorem create_jwt_token_one_exp_witness:
  "distinct (map fst ([[(''exp'', PyInt 5), (''iss'', PyStr ''service-a'')]] ! 0))
   \<and> create_jwt_token toy_sign (mk_datetime 2038 1 19 3 14 7)
        [[(''exp'', PyInt 5), (''iss'', PyStr ''service-a'')]] 0 (PyStr ''s3cr3t'')
      = (Inr \<lparr>header = [(''typ'', PyStr ''JWT''), (''alg'', PyStr ''HS256'')],
               payload = [(''exp'', PyInt 2147483647), (''iss'', PyStr ''service-a'')],
               signature = ''s3cr3texpiss''\<rparr>,
         [[(''exp'', PyInt 5), (''iss'', PyStr ''service-a'')],
          [(''exp'', PyInt 2147483647), (''iss'', PyStr ''service-a'')]])
   \<and> count_list (map fst [(''exp'', PyInt 2147483647), (''iss'', PyStr ''service-a'')]) ''exp'' = 1
   \<and> (\<exists>e. map_of [(''exp'', PyInt 2147483647), (''iss'', PyStr ''service-a'')] ''exp''
             = Some (PyInt e) \<and> e * 1000000 \<le> mk_datetime 2038 1 19 3 14 7)"
proof -
  have d: "distinct (map fst ([[(''exp'', PyInt 5), (''iss'', PyStr ''service-a'')]] ! 0))"
    by simp
  have run: "create_jwt_token toy_sign (mk_datetime 2038 1 19 3 14 7)
        [[(''exp'', PyInt 5), (''iss'', PyStr ''service-a'')]] 0 (PyStr ''s3cr3t'')
      = (Inr \<lparr>header = [(''typ'', PyStr ''JWT''), (''alg'', PyStr ''HS256'')],
               payload = [(''exp'', PyInt 2147483647), (''iss'', PyStr ''service-a'')],
               signature = ''s3cr3texpiss''\<rparr>,
         [[(''exp'', PyInt 5), (''iss'', PyStr ''service-a'')],
          [(''exp'', PyInt 2147483647), (''iss'', PyStr ''service-a'')]])"
    by (simp add: ceiling_value create_jwt_token_unfold datetime_min_value datetime_max_value
        toy_sign_def timegm_def Let_def)
  show ?thesis
    using d run create_jwt_token_one_exp [OF d run] by simp
qed

subsection \<open>C6: the scenario of the endpoint\<close>

text \<open>
  C6. The validity window is 2 minutes. When the credential service gives the secret
  \<^verbatim>\<open>s3cr3t\<close>, the signer accepts it and the clock is at least 2 minutes before the
  ceiling, \<open>generate_token\<close> for the issuer claim \<^verbatim>\<open>service-a\<close> returns a token, and the
  token decodes with \<^verbatim>\<open>s3cr3t\<close>, at every instant of the verifier's clock up to its
  expiry, to the claims \<^verbatim>\<open>iss = service-a\<close> and \<^verbatim>\<open>exp\<close> = the issuance time plus 2
  minutes (in the seconds of the encoder), and nothing else.
\<close>

theorem generate_token_scenario:
  assumes "get_secret_from_kong client_get consumer_id = Inr (PyStr ''s3cr3t'')"
    and "\<forall>m. sign (PyStr ''s3cr3t'') m \<noteq> None"
    and "datetime_min \<le> utcnow"
    and "utcnow + 2 * 60 * 1000000 \<le> mk_datetime 2038 1 19 3 14 7"
  shows "\<exists>token h'.
           generate_token sign client_get utcnow h \<lparr>iss = ''service-a''\<rparr> consumer_id
             = (Inr [(''token'', token)], h')
           \<and> (\<forall>now. timegm now \<le> timegm (utcnow + 2 * 60 * 1000000)
                \<longrightarrow> jwt_decode sign check_read_key int_of_str now token (PyStr ''s3cr3t'')
                    = Inr [(''iss'', PyStr ''service-a''),
                           (''exp'', PyInt (timegm (utcnow + 2 * 60 * 1000000)))])
           \<and> timedelta_minutes ACCESS_TOKEN_EXPIRE_MINUTES = 2 * 60 * 1000000"
proof -
  let ?body = "[(''iss'', PyStr ''service-a''), (''exp'', PyInt (timegm (utcnow + 120000000)))]"
  let ?hdr = "[(''typ'', PyStr ''JWT''), (''alg'', PyStr ''HS256'')]"
  obtain s where s: "sign (PyStr ''s3cr3t'') (?hdr, ?body) = Some s"
    using assms(2) by blast
  have range: "datetime_min \<le> utcnow + 120000000" "utcnow + 120000000 \<le> datetime_max"
    "min (utcnow + 120000000) 2147483647000000 = utcnow + 120000000"
    using assms(3,4) by (simp_all add: ceiling_value datetime_max_value)
  have create: "create_jwt_token sign utcnow (h @ [[(''iss'', PyStr ''service-a'')]]) (length h)
        (PyStr ''s3cr3t'')
      = (Inr \<lparr>header = ?hdr, payload = ?body, signature = s\<rparr>,
         h @ [[(''iss'', PyStr ''service-a'')]] @ [?body])"
    by (simp add: create_jwt_token_unfold range s Let_def)
  have gen: "generate_token sign client_get utcnow h \<lparr>iss = ''service-a''\<rparr> consumer_id
      = (Inr [(''token'', \<lparr>header = ?hdr, payload = ?body, signature = s\<rparr>)],
         h @ [[(''iss'', PyStr ''service-a'')]] @ [?body])"
    by (simp add: generate_token_def assms(1) heap_alloc_def create)
  have valid: "validate_claims int_of_str (timegm now) ?body = None"
    if "timegm now \<le> timegm (utcnow + 120000000)" for now
    using that by (simp add: validate_claims_exp_only)
  have "jwt_decode sign check_read_key int_of_str now
          \<lparr>header = ?hdr, payload = ?body, signature = s\<rparr> (PyStr ''s3cr3t'') = Inr ?body"
    if "timegm now \<le> timegm (utcnow + 120000000)" for now
    by (simp add: jwt_decode_def check_signature_def json_start_secret s valid [OF that])
  then show ?thesis
    using gen by (simp add: window_value)
qed

text \<open>
  The theorem for the consumer \<^verbatim>\<open>consumer-1\<close> at second 1700000000, decoded at the
  instant of issuance.
\<close>

theorem generate_token_scenario_witness:
  "get_secret_from_kong
      (kong_answers \<lparr>status_code = 200,
         json_body = Some (PyDict [(''data'', PyList [PyDict [(''secret'', PyStr ''s3cr3t'')]])])\<rparr>)
      ''consumer-1'' = Inr (PyStr ''s3cr3t'')
   \<and> generate_token toy_sign
      (kong_answers \<lparr>status_code = 200,
         json_body = Some (PyDict [(''data'', PyList [PyDict [(''secret'', PyStr ''s3cr3t'')]])])\<rparr>)
      1700000000000000 [] \<lparr>iss = ''service-a''\<rparr> ''consumer-1''
    = (Inr [(''token'',
             \<lparr>header = [(''typ'', PyStr ''JWT''), (''alg'', PyStr ''HS256'')],
              payload = [(''iss'', PyStr ''service-a''), (''exp'', PyInt 1700000120)],
              signature = ''s3cr3tissexp''\<rparr>)],
       [[(''iss'', PyStr ''service-a'')],
        [(''iss'', PyStr ''service-a''), (''exp'', PyInt 1700000120)]])
   \<and> jwt_decode toy_sign refuse_read_key digits_int 1700000000000000
         \<lparr>header = [(''typ'', PyStr ''JWT''), (''alg'', PyStr ''HS256'')],
          payload = [(''iss'', PyStr ''service-a''), (''exp'', PyInt 1700000120)],
          signature = ''s3cr3tissexp''\<rparr> (PyStr ''s3cr3t'')
       = Inr [(''iss'', PyStr ''service-a''), (''exp'', PyInt 1700000120)]"
proof -
  let ?kong = "kong_answers \<lparr>status_code = 200,
    json_body = Some (PyDict [(''data'', PyList [PyDict [(''secret'', PyStr ''s3cr3t'')]])])\<rparr>"
  have secret: "get_secret_from_kong ?kong ''consumer-1'' = Inr (PyStr ''s3cr3t'')"
    by (simp add: get_secret_from_kong_def kong_answers_def response_json_def first_secret_def)
  have accepts: "\<forall>m. toy_sign (PyStr ''s3cr3t'') m \<noteq> None"
    by (simp add: toy_sign_def)
  have t1: "datetime_min \<le> 1700000000000000"
    by (simp add: datetime_min_value)
  have t2: "1700000000000000 + 2 * 60 * 1000000 \<le> mk_datetime 2038 1 19 3 14 7"
    by (simp add: ceiling_value)
  have t3: "timegm 1700000000000000 \<le> timegm (1700000000000000 + 2 * 60 * 1000000)"
    by (simp add: timegm_def)
  obtain token h' where
    run: "generate_token toy_sign ?kong 1700000000000000 [] \<lparr>iss = ''service-a''\<rparr> ''consumer-1''
            = (Inr [(''token'', token)], h')"
    and dec: "jwt_decode toy_sign refuse_read_key digits_int 1700000000000000 token (PyStr ''s3cr3t'')
            = Inr [(''iss'', PyStr ''service-a''),
                   (''exp'', PyInt (timegm (1700000000000000 + 2 * 60 * 1000000)))]"
    using generate_token_scenario [where client_get = "?kong" and sign = toy_sign
        and consumer_id = "''consumer-1''" and utcnow = 1700000000000000 and h = "[]"
        and int_of_str = digits_int and check_read_key = refuse_read_key]
      secret accepts t1 t2 t3 by blast
  have "generate_token toy_sign ?kong 1700000000000000 [] \<lparr>iss = ''service-a''\<rparr> ''consumer-1''
      = (Inr [(''token'',
             \<lparr>header = [(''typ'', PyStr ''JWT''), (''alg'', PyStr ''HS256'')],
              payload = [(''iss'', PyStr ''service-a''), (''exp'', PyInt 1700000120)],
              signature = ''s3cr3tissexp''\<rparr>)],
       [[(''iss'', PyStr ''service-a'')],
        [(''iss'', PyStr ''service-a''), (''exp'', PyInt 1700000120)]])"
    by (simp add: generate_token_def secret heap_alloc_def create_jwt_token_unfold
        datetime_min_value datetime_max_value toy_sign_def timegm_def Let_def)
  with run dec secret show ?thesis by (simp add: timegm_def)
qed

subsection \<open>C7: the issuer is a function of payload, secret and clock\<close>

text \<open>
  C7. Two calls of \<open>create_jwt_token\<close> with equal payloads, the same secret and the
  same clock give the same token (or the same exception), whatever else the heaps hold
  and wherever the payloads lie; and a call changes no object that existed before it.
\<close>

theorem create_jwt_token_functional:
  assumes "h1 ! data1 = h2 ! data2"
  shows "fst (create_jwt_token sign utcnow h1 data1 secret)
           = fst (create_jwt_token sign utcnow h2 data2 secret)
         \<and> take (length h1) (snd (create_jwt_token sign utcnow h1 data1 secret)) = h1"
  using assms
  by (simp add: create_jwt_token_unfold Let_def split: option.split
      del: convert_time_claims.simps json_serializable.simps)

text \<open>
  The theorem for one payload at two places of two heaps.
\<close>

theorem create_jwt_token_functional_witness:
  "[[(''iss'', PyStr ''service-a'')]] ! 0
     = [[(''sub'', PyInt 1)], [(''iss'', PyStr ''service-a'')]] ! 1
   \<and> fst (create_jwt_token toy_sign 1700000000000000 [[(''iss'', PyStr ''service-a'')]] 0
           (PyStr ''s3cr3t''))
     = fst (create_jwt_token toy_sign 1700000000000000
           [[(''sub'', PyInt 1)], [(''iss'', PyStr ''service-a'')]] 1 (PyStr ''s3cr3t''))
   \<and> take (length [[(''iss'', PyStr ''service-a'')]])
        (snd (create_jwt_token toy_sign 1700000000000000 [[(''iss'', PyStr ''service-a'')]] 0
           (PyStr ''s3cr3t'')))
     = [[(''iss'', PyStr ''service-a'')]]"
proof -
  have same: "[[(''iss'', PyStr ''service-a'')]] ! 0
      = [[(''sub'', PyInt 1)], [(''iss'', PyStr ''service-a'')]] ! 1"
    by simp
  show ?thesis
    using same create_jwt_token_functional [OF same, of toy_sign 1700000000000000 "PyStr ''s3cr3t''"]
    by simp
qed

subsection \<open>C8: an absent item is not found and nothing changes\<close>

text \<open>
  C8. For an \<open>item_id\<close> that no row of the table has and that is a key the table can
  hold, a signed number of 64 bits, \<open>read_item\<close>, \<open>update_item\<close> and \<open>delete_item\<close> each
  fail with the 404 of \<^verbatim>\<open>Item not found\<close> and leave the table as it was. The request
  may carry any integer; outside that range the lookup itself fails, so the claim for
  every absent \<open>item_id\<close> does not hold.
\<close>

theorem absent_item_not_found:
  assumes "item_id \<notin> set (map id' db)" and "sqlite_integer item_id"
  shows "read_item db item_id = (Inl (HTTPException 404 ''Item not found''), db)
         \<and> update_item nullable db item_id item
           = (Inl (HTTPException 404 ''Item not found''), db)
         \<and> delete_item db item_id = (Inl (HTTPException 404 ''Item not found''), db)"
  using assms(2)
  by (simp add: read_item_def update_item_def delete_item_def session_get_absent [OF assms(1)])

text \<open>
  The theorem for the key 7 in a table with the key 1.
\<close>

theorem absent_item_not_found_witness:
  "(7::int) \<notin> set (map id' [\<lparr>id' = 1, name = ''milk'', description = Some ''whole''\<rparr>])
   \<and> sqlite_integer 7
   \<and> read_item [\<lparr>id' = 1, name = ''milk'', description = Some ''whole''\<rparr>] 7
       = (Inl (HTTPException 404 ''Item not found''),
          [\<lparr>id' = 1, name = ''milk'', description = Some ''whole''\<rparr>])
   \<and> update_item False [\<lparr>id' = 1, name = ''milk'', description = Some ''whole''\<rparr>] 7
         \<lparr>id' = 7, name = ''tea'', description = Some ''green''\<rparr>
       = (Inl (HTTPException 404 ''Item not found''),
          [\<lparr>id' = 1, name = ''milk'', description = Some ''whole''\<rparr>])
   \<and> delete_item [\<lparr>id' = 1, name = ''milk'', description = Some ''whole''\<rparr>] 7
       = (Inl (HTTPException 404 ''Item not found''),
          [\<lparr>id' = 1, name = ''milk'', description = Some ''whole''\<rparr>])"
proof -
  have absent: "(7::int) \<notin> set (map id' [\<lparr>id' = 1, name = ''milk'', description = Some ''whole''\<rparr>])"
    by simp
  have range: "sqlite_integer 7"
    by (simp add: sqlite_integer_def)
  show ?thesis
    using absent range absent_item_not_found [OF absent range,
        of False "\<lparr>id' = 7, name = ''tea'', description = Some ''green''\<rparr>"]
    by simp
qed

text \<open>
  The key 9223372036854775808 is in no table, and each of the three operations raises
  \<^verbatim>\<open>OverflowError\<close> for it, not the 404.
\<close>

theorem absent_item_overflow:
  "(9223372036854775808 :: int)
      \<notin> set (map id' [\<lparr>id' = 1, name = ''milk'', description = Some ''whole''\<rparr>])
   \<and> read_item [\<lparr>id' = 1, name = ''milk'', description = Some ''whole''\<rparr>] 9223372036854775808
       = (Inl OverflowError, [\<lparr>id' = 1, name = ''milk'', description = Some ''whole''\<rparr>])
   \<and> update_item False [\<lparr>id' = 1, name = ''milk'', description = Some ''whole''\<rparr>]
         9223372036854775808 \<lparr>id' = 7, name = ''tea'', description = Some ''green''\<rparr>
       = (Inl OverflowError, [\<lparr>id' = 1, name = ''milk'', description = Some ''whole''\<rparr>])
   \<and> delete_item [\<lparr>id' = 1, name = ''milk'', description = Some ''whole''\<rparr>] 9223372036854775808
       = (Inl OverflowError, [\<lparr>id' = 1, name = ''milk'', description = Some ''whole''\<rparr>])"
  by (simp add: read_item_def update_item_def delete_item_def session_get_def sqlite_integer_def)

subsection \<open>C9: the caller's dictionary is not mutated\<close>

text \<open>
  C9. After \<open>create_jwt_token\<close>, whether it returns or raises, the object that the
  caller passed holds what it held before: \<^verbatim>\<open>exp\<close> is set in the copy.
\<close>

theorem create_jwt_token_keeps_data:
  assumes "data < length h"
  shows "snd (create_jwt_token sign utcnow h data secret) ! data = h ! data"
  using assms
  by (simp add: create_jwt_token_unfold Let_def nth_append split: option.split
      del: convert_time_claims.simps json_serializable.simps)

text \<open>
  The theorem for the payload of the endpoint.
\<close>

theorem create_jwt_token_keeps_data_witness:
  "(0::nat) < length [[(''iss'', PyStr ''service-a'')]]
   \<and> snd (create_jwt_token toy_sign 1700000000000000 [[(''iss'', PyStr ''service-a'')]] 0
          (PyStr ''s3cr3t'')) ! 0
     = [(''iss'', PyStr ''service-a'')]"
proof -
  have live: "(0::nat) < length [[(''iss'', PyStr ''service-a'')]]"
    by simp
  show ?thesis
    using live create_jwt_token_keeps_data [OF live, of toy_sign 1700000000000000 "PyStr ''s3cr3t''"]
    by simp
qed

subsection \<open>C10: an update writes the name and the description of its row\<close>




end
